theory Spec2Isabelle
  imports Complex_Main "HOL-Library.Word" "HOL-Library.Sublist"
begin

section \<open>JavaScript values used by the RAG routes\<close>

text \<open>
  A JavaScript string is a sequence of UTF-16 code units and \<open>length\<close> counts code
  units, so a string is a list of 16-bit words. \<open>js\<close> writes a literal.
  Numbers that stay integral in the source are \<open>int\<close>; the chunker's offsets can be
  half-integers (\<open>maxChunkSize * 0.5\<close>) and are \<open>rat\<close>, with the products by \<open>0.5\<close>
  and \<open>0.3\<close> taken exactly; embedding components and similarity scores are doubles,
  modelled by \<open>real\<close>, so rounding, infinities and \<open>NaN\<close> are left out (the quotient
  \<open>0 / 0\<close> of a zero vector is \<open>0\<close> here, the value that the sort comparator's
  \<open>similarity || 0\<close> gives it).
\<close>

type_synonym jschar = "16 word"
type_synonym jsstring = "jschar list"

definition js :: "string \<Rightarrow> jsstring" where
  "js s = map (\<lambda>c. of_char c) s"

text \<open>White space and line terminators of ECMAScript, the code units that \<open>trim\<close> strips.\<close>

definition isWhiteSpace :: "jschar \<Rightarrow> bool" where
  "isWhiteSpace c \<longleftrightarrow>
     c = 0x09 \<or> c = 0x0A \<or> c = 0x0B \<or> c = 0x0C \<or> c = 0x0D \<or> c = 0x20 \<or> c = 0xA0 \<or>
     c = 0x1680 \<or> (0x2000 \<le> c \<and> c \<le> 0x200A) \<or> c = 0x2028 \<or> c = 0x2029 \<or>
     c = 0x202F \<or> c = 0x205F \<or> c = 0x3000 \<or> c = 0xFEFF"

definition trim :: "jsstring \<Rightarrow> jsstring" where
  "trim s = rev (dropWhile isWhiteSpace (rev (dropWhile isWhiteSpace s)))"

text \<open>\<open>ToIntegerOrInfinity\<close> on a finite number: truncation towards zero.\<close>

definition toInteger :: "rat \<Rightarrow> int" where
  "toInteger x = (if 0 \<le> x then \<lfloor>x\<rfloor> else \<lceil>x\<rceil>)"

text \<open>\<open>String.prototype.slice(start, end)\<close>: a negative index counts from the end.\<close>

definition slice :: "jsstring \<Rightarrow> rat \<Rightarrow> rat \<Rightarrow> jsstring" where
  "slice s start fin =
     (let len = int (length s);
          relStart = toInteger start;
          from = (if relStart < 0 then max (len + relStart) 0 else min relStart len);
          relEnd = toInteger fin;
          to = (if relEnd < 0 then max (len + relEnd) 0 else min relEnd len)
      in take (nat (to - from)) (drop (nat from) s))"

text \<open>\<open>String.prototype.substring(0, n)\<close> for an integer \<open>n\<close>.\<close>

definition substring0 :: "jsstring \<Rightarrow> int \<Rightarrow> jsstring" where
  "substring0 s n = take (nat n) s"

text \<open>
  \<open>String.prototype.lastIndexOf(searchString, position)\<close>: the largest index \<open>k\<close>, at most
  \<open>position\<close> clamped to \<open>0 .. length - searchLength\<close>, at which \<open>searchString\<close>
  occurs; \<open>-1\<close> when there is none.
\<close>

definition occursAt :: "jsstring \<Rightarrow> jsstring \<Rightarrow> nat \<Rightarrow> bool" where
  "occursAt s pat k \<longleftrightarrow> take (length pat) (drop k s) = pat"

fun searchDown :: "jsstring \<Rightarrow> jsstring \<Rightarrow> nat \<Rightarrow> int" where
  "searchDown s pat 0 = (if occursAt s pat 0 then 0 else -1)"
| "searchDown s pat (Suc k) =
     (if occursAt s pat (Suc k) then int (Suc k) else searchDown s pat k)"

definition lastIndexOf :: "jsstring \<Rightarrow> jsstring \<Rightarrow> rat \<Rightarrow> int" where
  "lastIndexOf s pat position =
     (let len = int (length s); searchLen = int (length pat)
      in if len < searchLen then -1
         else searchDown s pat (nat (min (max (toInteger position) 0) (len - searchLen))))"

section \<open>Chunker: \<open>splitTextIntoChunks\<close> (process-pdf/route.ts)\<close>

text \<open>
  The parameters \<open>maxChunkSize\<close> and \<open>overlap\<close> are integers (the one call passes 1000
  and 100). The two clamps at the head of the function:
\<close>

definition clampChunkSize :: "int \<Rightarrow> int" where
  "clampChunkSize maxChunkSize = max 100 (min maxChunkSize 10000)"

definition clampOverlap :: "int \<Rightarrow> int \<Rightarrow> rat" where
  "clampOverlap maxChunkSize overlap =
     max 0 (min (of_int overlap) (of_int (clampChunkSize maxChunkSize) * (1 / 2)))"

definition maxIterationsOf :: "jsstring \<Rightarrow> rat \<Rightarrow> rat \<Rightarrow> int" where
  "maxIterationsOf text maxChunkSize overlap =
     \<lceil>of_nat (length text) / (maxChunkSize - overlap)\<rceil> + 10"

text \<open>
  The end offset of the chunk that starts at \<open>startIndex\<close>: the naive end, moved to a
  paragraph break, line break, period and space, or period when one lies far enough
  from the start.
\<close>

definition chooseEnd :: "jsstring \<Rightarrow> rat \<Rightarrow> rat \<Rightarrow> rat" where
  "chooseEnd text maxChunkSize startIndex =
     (let endIndex = min (startIndex + maxChunkSize) (of_nat (length text))
      in if endIndex < of_nat (length text) then
           let searchStart = max startIndex (endIndex - maxChunkSize);
               searchEnd = endIndex;
               lastNewline = lastIndexOf text (js [CHR 0x0A, CHR 0x0A]) searchEnd;
               lastSingleNewline = lastIndexOf text (js [CHR 0x0A]) searchEnd;
               lastPeriod = lastIndexOf text (js ''. '') searchEnd;
               lastDot = lastIndexOf text (js ''.'') searchEnd;
               breakPoint =
                 (if of_int lastNewline > searchStart then lastNewline + 2
                  else if of_int lastSingleNewline > searchStart then lastSingleNewline + 1
                  else if of_int lastPeriod > searchStart then lastPeriod + 2
                  else if of_int lastDot > searchStart then lastDot + 1
                  else -1)
           in if of_int breakPoint > startIndex + maxChunkSize * (3 / 10)
              then of_int breakPoint else endIndex
         else endIndex)"

text \<open>
  One pass through the loop body. \<open>None\<close> is the \<open>break\<close> on invalid indices;
  otherwise the new start offset and the chunk list. The \<open>try\<close> around \<open>slice\<close> and
  \<open>trim\<close> has no branch here: neither throws on a string.
\<close>

definition loopBody ::
  "jsstring \<Rightarrow> rat \<Rightarrow> rat \<Rightarrow> rat \<Rightarrow> jsstring list \<Rightarrow> (rat \<times> jsstring list) option" where
  "loopBody text maxChunkSize overlap startIndex chunks =
     (let endIndex = chooseEnd text maxChunkSize startIndex
      in if startIndex \<ge> endIndex \<or> startIndex < 0 \<or> endIndex > of_nat (length text)
         then None
         else
           let chunk = trim (slice text startIndex endIndex);
               chunks' = (if length chunk > 0 then chunks @ [chunk] else chunks);
               nextStart = endIndex - overlap;
               startIndex' = (if nextStart \<le> startIndex
                              then startIndex + max 1 (maxChunkSize - overlap)
                              else nextStart);
               startIndex'' = (if startIndex' < 0 then endIndex else startIndex')
           in Some (startIndex'', chunks'))"

text \<open>
  The \<open>while\<close> loop on (\<open>startIndex\<close>, \<open>iterationCount\<close>, \<open>chunks\<close>); the result
  keeps all three so that the number of passes can be read off.
\<close>

function chunkLoop ::
  "jsstring \<Rightarrow> rat \<Rightarrow> rat \<Rightarrow> int \<Rightarrow> rat \<Rightarrow> int \<Rightarrow> jsstring list
     \<Rightarrow> rat \<times> int \<times> jsstring list" where
  "chunkLoop text maxChunkSize overlap maxIterations startIndex iterationCount chunks =
     (if startIndex < of_nat (length text) \<and> iterationCount < maxIterations then
        (case loopBody text maxChunkSize overlap startIndex chunks of
           None \<Rightarrow> (startIndex, iterationCount + 1, chunks)
         | Some (startIndex', chunks') \<Rightarrow>
             chunkLoop text maxChunkSize overlap maxIterations startIndex'
               (iterationCount + 1) chunks')
      else (startIndex, iterationCount, chunks))"
  by pat_completeness auto
termination
  by (relation "measure (\<lambda>(text, maxChunkSize, overlap, maxIterations, startIndex,
        iterationCount, chunks). nat (maxIterations - iterationCount))") auto

declare chunkLoop.simps [simp del]

definition runChunkLoop :: "jsstring \<Rightarrow> int \<Rightarrow> int \<Rightarrow> rat \<times> int \<times> jsstring list" where
  "runChunkLoop text maxChunkSize overlap =
     (let m = of_int (clampChunkSize maxChunkSize);
          ov = clampOverlap maxChunkSize overlap
      in chunkLoop text m ov (maxIterationsOf text m ov) 0 0 [])"

definition splitTextIntoChunks :: "jsstring \<Rightarrow> int \<Rightarrow> int \<Rightarrow> jsstring list" where
  "splitTextIntoChunks text maxChunkSize overlap =
     (if length text = 0 then []
      else
        let chunks = snd (snd (runChunkLoop text maxChunkSize overlap))
        in filter (\<lambda>chunk. length chunk > 0
                     \<and> int (length chunk) \<le> clampChunkSize maxChunkSize * 2) chunks)"

section \<open>Errors, JSON and the outside world\<close>

text \<open>
  A thrown value is an \<open>Error\<close> object with its message, or something that is not an
  \<open>Error\<close> instance; \<open>messageOr\<close> is the recurring
  \<open>e instanceof Error ? e.message : '...'\<close>.
\<close>

datatype thrown = Error jsstring | NonError

definition messageOr :: "thrown \<Rightarrow> string \<Rightarrow> jsstring" where
  "messageOr e fallback = (case e of Error m \<Rightarrow> m | NonError \<Rightarrow> js fallback)"

datatype json =
    JNull
  | JBool bool
  | JNumber real
  | JString jsstring
  | JArray "json list"
  | JObject "(string \<times> json) list"

text \<open>JavaScript truthiness of a property that may be absent (\<open>undefined\<close>).\<close>

fun truthy :: "json option \<Rightarrow> bool" where
  "truthy None = False"
| "truthy (Some JNull) = False"
| "truthy (Some (JBool b)) = b"
| "truthy (Some (JNumber x)) = (x \<noteq> 0)"
| "truthy (Some (JString s)) = (s \<noteq> [])"
| "truthy (Some (JArray xs)) = True"
| "truthy (Some (JObject fs)) = True"

text \<open>Truthiness of an optional string argument, as in \<open>if (modelNumber)\<close>.\<close>

fun provided :: "jsstring option \<Rightarrow> bool" where
  "provided None = False"
| "provided (Some s) = (s \<noteq> [])"

record response =
  status :: nat
  body :: json

text \<open>
  The column \<open>embedding\<close> of \<open>manual_chunks\<close> holds JSON text. Ingestion writes
  \<open>JSON.stringify\<close> of a number array; \<open>Malformed\<close> stands for any text on which
  \<open>JSON.parse\<close> throws.
\<close>

datatype json_text = Malformed | ArrayText "real list"

definition JSON_stringify :: "real list \<Rightarrow> json_text" where
  "JSON_stringify v = ArrayText v"

definition JSON_parse :: "json_text \<Rightarrow> thrown + real list" where
  "JSON_parse t = (case t of Malformed \<Rightarrow> Inl (Error (js ''Unexpected token'')) | ArrayText v \<Rightarrow> Inr v)"

record with_model =
  model_number :: jsstring

record manual = with_model +
  pdf_url :: jsstring

record chunk_base = with_model +
  content :: jsstring
  chunk_index :: int

record chunk_row = chunk_base +
  page_number :: int
  embedding :: json_text
  processed_at :: jsstring

record retrieved_chunk = chunk_base +
  similarity :: real

text \<open>
  The embedding and generation provider, the HTTP client and the database are
  outside the program. Every request to one of them is appended to \<open>log\<close>; what the
  outside answers to the request made when \<open>n\<close> requests have gone before is read
  from the environment \<open>env\<close> at \<open>n\<close>, so that any sequence of answers can be described.
  The two tables are lists of rows; a database request that returns an error leaves
  its table as it was. \<open>now\<close> is the clock read for row \<open>index\<close> of an insertion.
  Delays (\<open>setTimeout\<close>) are not modelled.
\<close>

datatype task = RETRIEVAL_QUERY | RETRIEVAL_DOCUMENT

datatype call =
    EmbedContent task jsstring
  | GenerateContent jsstring
  | AxiosGet jsstring
  | SelectChunks "jsstring option"
  | SelectManuals
  | DeleteChunks jsstring
  | InsertChunks "chunk_row list"

text \<open>
  \<open>EmbedResult\<close> carries \<open>result.embeddings\<close>, which may be absent, and in each
  entry \<open>values\<close>, which may be absent. \<open>GenText\<close> carries
  \<open>result.candidates?.[0]?.content?.parts?.[0]?.text\<close>.
\<close>

datatype embed_response = EmbedThrows thrown | EmbedResult "real list option list option"

datatype gen_response = GenThrows thrown | GenText "jsstring option"

record pdf_data =
  numpages :: nat
  pdf_text :: "jsstring option"

record env =
  embedContent :: "nat \<Rightarrow> embed_response"
  generateContent :: "nat \<Rightarrow> gen_response"
  axios_get :: "nat \<Rightarrow> thrown + 8 word list"
  pdfParse :: "8 word list \<Rightarrow> thrown + pdf_data"
  select_error :: "nat \<Rightarrow> thrown option"
  delete_error :: "nat \<Rightarrow> thrown option"
  insert_error :: "nat \<Rightarrow> thrown option"
  now :: "nat \<Rightarrow> nat \<Rightarrow> jsstring"

record world =
  manual_chunks :: "chunk_row list"
  manuals :: "manual list"
  log :: "call list"

definition request :: "world \<Rightarrow> call \<Rightarrow> world" where
  "request w c = w\<lparr>log := log w @ [c]\<rparr>"

section \<open>Retrieval and answering (ask/route.ts)\<close>

definition cosineSimilarity :: "real list \<Rightarrow> real list \<Rightarrow> thrown + real" where
  "cosineSimilarity vecA vecB =
     (if length vecA \<noteq> length vecB then Inl (Error (js ''Vectors must have the same length''))
      else
        let dotProduct = fold (\<lambda>(a, b) acc. acc + a * b) (zip vecA vecB) 0;
            normA = fold (\<lambda>a acc. acc + a * a) vecA 0;
            normB = fold (\<lambda>b acc. acc + b * b) vecB 0
        in Inr (dotProduct / (sqrt normA * sqrt normB)))"

definition generateQueryEmbedding ::
  "env \<Rightarrow> world \<Rightarrow> jsstring \<Rightarrow> (thrown + real list) \<times> world" where
  "generateQueryEmbedding orc w query =
     (let w' = request w (EmbedContent RETRIEVAL_QUERY query);
          failed = Inl (Error (js ''Failed to generate query embedding''))
      in case embedContent orc (length (log w)) of
           EmbedThrows e \<Rightarrow> (Inl e, w')
         | EmbedResult None \<Rightarrow> (failed, w')
         | EmbedResult (Some []) \<Rightarrow> (failed, w')
         | EmbedResult (Some (None # rest)) \<Rightarrow> (failed, w')
         | EmbedResult (Some (Some values # rest)) \<Rightarrow> (Inr values, w'))"

text \<open>
  The callback of \<open>data.map\<close>: the \<open>try\<close> block holds both \<open>JSON.parse\<close> and the
  call of \<open>cosineSimilarity\<close>, and the \<open>catch\<close> returns \<open>null\<close> for either failure.
\<close>

definition scoreChunk :: "real list \<Rightarrow> chunk_row \<Rightarrow> retrieved_chunk option" where
  "scoreChunk queryEmbedding chunk =
     (case JSON_parse (embedding chunk) of
        Inl e \<Rightarrow> None
      | Inr chunkEmbedding \<Rightarrow>
          (case cosineSimilarity queryEmbedding chunkEmbedding of
             Inl e \<Rightarrow> None
           | Inr s \<Rightarrow> Some \<lparr>model_number = model_number chunk, content = content chunk,
                          chunk_index = chunk_index chunk, similarity = s\<rparr>))"

text \<open>\<open>Array.prototype.slice(0, limit)\<close>; a negative limit counts from the end.\<close>

definition sliceTo :: "'a list \<Rightarrow> int \<Rightarrow> 'a list" where
  "sliceTo xs limit =
     (if limit < 0 then take (nat (int (length xs) + limit)) xs else take (nat limit) xs)"

text \<open>
  \<open>sort((a, b) => (b.similarity || 0) - (a.similarity || 0))\<close> is a stable sort by
  descending similarity, here \<open>sort_key\<close> on the negated score.
\<close>

definition retrieveRelevantChunks ::
  "env \<Rightarrow> world \<Rightarrow> real list \<Rightarrow> jsstring option \<Rightarrow> int
     \<Rightarrow> (thrown + retrieved_chunk list) \<times> world" where
  "retrieveRelevantChunks orc w queryEmbedding modelNumber limit =
     (let filt = (if provided modelNumber then modelNumber else None);
          w' = request w (SelectChunks filt)
      in case select_error orc (length (log w)) of
           Some e \<Rightarrow> (Inl e, w')
         | None \<Rightarrow>
             let data = (case filt of
                           None \<Rightarrow> manual_chunks w
                         | Some m \<Rightarrow> filter (\<lambda>chunk. model_number chunk = m) (manual_chunks w))
             in if length data = 0 then (Inr [], w')
                else
                  let scored = map (scoreChunk queryEmbedding) data;
                      kept = map the (filter (\<lambda>chunk. chunk \<noteq> None) scored);
                      sorted = sort_key (\<lambda>chunk. - similarity chunk) kept
                  in (Inr (sliceTo sorted limit), w'))"

text \<open>Decimal rendering of a number inside a template literal.\<close>

fun showNat :: "nat \<Rightarrow> jsstring" where
  "showNat n =
     (if n < 10 then [of_nat (48 + n)] else showNat (n div 10) @ [of_nat (48 + n mod 10)])"

declare showNat.simps [simp del]

definition newline :: jsstring where
  "newline = js [CHR 0x0A]"

fun joinStrings :: "jsstring \<Rightarrow> jsstring list \<Rightarrow> jsstring" where
  "joinStrings sep [] = []"
| "joinStrings sep [x] = x"
| "joinStrings sep (x # y # ys) = x @ sep @ joinStrings sep (y # ys)"

definition contextEntry :: "nat \<times> retrieved_chunk \<Rightarrow> jsstring" where
  "contextEntry = (\<lambda>(index, chunk).
     js ''[Context '' @ showNat (index + 1) @ js '' - Model: '' @ model_number chunk @ js '']''
       @ newline @ content chunk)"

definition buildPrompt :: "jsstring \<Rightarrow> retrieved_chunk list \<Rightarrow> jsstring option \<Rightarrow> jsstring" where
  "buildPrompt question context modelNumber =
     (let contextText = joinStrings (newline @ newline) (map contextEntry (enumerate 0 context))
      in joinStrings newline
           [js ''You are a helpful assistant specializing in HVAC equipment manuals. Answer the user's question based on the provided context from official manuals.'',
            [],
            js ''IMPORTANT INSTRUCTIONS:'',
            js ''- Only answer based on the provided context'',
            js ''- If the context doesn't contain relevant information, say so clearly'',
            js ''- Be specific and technical when appropriate'',
            js ''- If referring to a specific model, mention the model number'',
            js ''- Keep answers concise but comprehensive'',
            [],
            js ''CONTEXT FROM MANUALS:'',
            contextText,
            [],
            (if provided modelNumber then js ''SPECIFIC MODEL: '' @ the modelNumber else []),
            [],
            js ''USER QUESTION: '' @ question,
            [],
            js ''ANSWER:''])"

definition generateAnswer ::
  "env \<Rightarrow> world \<Rightarrow> jsstring \<Rightarrow> retrieved_chunk list \<Rightarrow> jsstring option
     \<Rightarrow> (thrown + jsstring) \<times> world" where
  "generateAnswer orc w question context modelNumber =
     (let w' = request w (GenerateContent (buildPrompt question context modelNumber))
      in case generateContent orc (length (log w)) of
           GenThrows e \<Rightarrow> (Inl e, w')
         | GenText None \<Rightarrow> (Inl (Error (js ''No response generated'')), w')
         | GenText (Some generatedText) \<Rightarrow>
             if generatedText = [] then (Inl (Error (js ''No response generated'')), w')
             else (Inr generatedText, w'))"

text \<open>
  The body of an Ask request after \<open>request.json()\<close> and the destructuring
  \<open>{ question, model_number }\<close>. \<open>Unreadable\<close>: the body is not JSON or is \<open>null\<close>,
  and one of the two throws. Otherwise \<open>question\<close> is any JSON value or absent;
  \<open>model_number\<close> is a string or absent, as the signature of
  \<open>retrieveRelevantChunks\<close> declares it.
\<close>

datatype ask_request = Unreadable thrown | Fields "json option" "jsstring option"

definition failedToProcess :: "thrown \<Rightarrow> response" where
  "failedToProcess e =
     \<lparr>status = 500,
      body = JObject [(''error'', JString (js ''Failed to process question'')),
                      (''details'', JString (messageOr e ''Unknown error''))]\<rparr>"

definition noInformation :: "jsstring option \<Rightarrow> jsstring" where
  "noInformation modelNumber =
     (if provided modelNumber
      then js ''I don't have manual information available for model '' @ the modelNumber
             @ js '' to answer your question.''
      else js ''I don't have relevant manual information to answer your question. Please make sure the manuals have been processed.'')"

definition sourceOf :: "retrieved_chunk \<Rightarrow> json" where
  "sourceOf chunk =
     JObject [(''model_number'', JString (model_number chunk)),
              (''similarity'', JNumber (similarity chunk)),
              (''preview'', JString (substring0 (content chunk) 200 @ js ''...''))]"

definition POST_ask :: "env \<Rightarrow> world \<Rightarrow> ask_request \<Rightarrow> response \<times> world" where
  "POST_ask orc w req =
     (case req of
        Unreadable e \<Rightarrow> (failedToProcess e, w)
      | Fields question modelNumber \<Rightarrow>
          (case question of
             Some (JString q) \<Rightarrow>
               if \<not> truthy question \<or> length (trim q) = 0 then
                 (\<lparr>status = 400,
                   body = JObject [(''error'',
                     JString (js ''Question is required and must be a non-empty string''))]\<rparr>, w)
               else
                 (case generateQueryEmbedding orc w q of
                    (Inl e, w1) \<Rightarrow> (failedToProcess e, w1)
                  | (Inr queryEmbedding, w1) \<Rightarrow>
                      (case retrieveRelevantChunks orc w1 queryEmbedding modelNumber 5 of
                         (Inl e, w2) \<Rightarrow> (failedToProcess e, w2)
                       | (Inr relevantChunks, w2) \<Rightarrow>
                           if length relevantChunks = 0 then
                             (\<lparr>status = 200,
                               body = JObject [(''answer'', JString (noInformation modelNumber)),
                                               (''sources'', JArray []),
                                               (''question'', JString q)]\<rparr>, w2)
                           else
                             (case generateAnswer orc w2 q relevantChunks modelNumber of
                                (Inl e, w3) \<Rightarrow> (failedToProcess e, w3)
                              | (Inr answer, w3) \<Rightarrow>
                                  (\<lparr>status = 200,
                                    body = JObject
                                      [(''answer'', JString answer),
                                       (''sources'', JArray (map sourceOf relevantChunks)),
                                       (''question'', JString q),
                                       (''model_number'',
                                          if provided modelNumber
                                          then JString (the modelNumber) else JNull)]\<rparr>, w3))))
           | _ \<Rightarrow>
               \<comment> \<open>absent, falsy, or \<open>typeof question !== 'string'\<close>\<close>
               (\<lparr>status = 400,
                 body = JObject [(''error'',
                   JString (js ''Question is required and must be a non-empty string''))]\<rparr>, w)))"

text \<open>The value of a field of a JSON object, \<open>None\<close> when the object has no such field.\<close>

fun field :: "json \<Rightarrow> string \<Rightarrow> json option" where
  "field (JObject fs) k = map_of fs k"
| "field _ k = None"

section \<open>Embedding client: \<open>generateEmbeddings\<close> (process-pdf/route.ts)\<close>

text \<open>
  What one call of \<open>embedContent\<close> gives the retry loop: the vector when
  \<open>result.embeddings\<close> is non-empty and its first entry has \<open>values\<close> (an empty array
  counts, being truthy), nothing when the call throws or the check throws
  \<open>No embedding values returned from API\<close>.
\<close>

fun embeddingValues :: "embed_response \<Rightarrow> real list option" where
  "embeddingValues (EmbedResult (Some (Some values # rest))) = Some values"
| "embeddingValues _ = None"

text \<open>
  The retry loop of one item, \<open>maxRetries = 3\<close>: a failed attempt counts up, and the
  third failure sets the empty array as fallback.
\<close>

function embedAttempts :: "env \<Rightarrow> world \<Rightarrow> jsstring \<Rightarrow> nat \<Rightarrow> real list \<times> world" where
  "embedAttempts orc w processChunk attempts =
     (if attempts < 3 then
        (case embeddingValues (embedContent orc (length (log w))) of
           Some values \<Rightarrow> (values, request w (EmbedContent RETRIEVAL_DOCUMENT processChunk))
         | None \<Rightarrow>
             if attempts + 1 \<ge> 3
             then ([], request w (EmbedContent RETRIEVAL_DOCUMENT processChunk))
             else embedAttempts orc (request w (EmbedContent RETRIEVAL_DOCUMENT processChunk))
                    processChunk (attempts + 1))
      else ([], w))"
  by pat_completeness auto
termination
  by (relation "measure (\<lambda>(orc, w, processChunk, attempts). 3 - attempts)") auto

declare embedAttempts.simps [simp del]

text \<open>One item: an empty or blank chunk gets the empty array without a call.\<close>

definition embedItem :: "env \<Rightarrow> world \<Rightarrow> jsstring \<Rightarrow> real list \<times> world" where
  "embedItem orc w chunk =
     (if length chunk = 0 \<or> length (trim chunk) = 0 then ([], w)
      else
        let processChunk = (if int (length chunk) > 8000 then substring0 chunk 8000 else chunk)
        in embedAttempts orc w processChunk 0)"

text \<open>
  The two nested \<open>for\<close> loops visit the chunks in order, one at a time; the batches of
  five only shape the progress log.
\<close>

fun embedAll ::
  "env \<Rightarrow> world \<Rightarrow> jsstring list \<Rightarrow> real list list \<Rightarrow> real list list \<times> world" where
  "embedAll orc w [] embeddings = (embeddings, w)"
| "embedAll orc w (chunk # rest) embeddings =
     (case embedItem orc w chunk of
        (emb, w') \<Rightarrow> embedAll orc w' rest (embeddings @ [emb]))"

definition generateEmbeddings ::
  "env \<Rightarrow> world \<Rightarrow> jsstring list \<Rightarrow> (thrown + real list list) \<times> world" where
  "generateEmbeddings orc w chunks =
     (if length chunks = 0 then (Inr [], w)
      else
        case embedAll orc w chunks [] of
          (embeddings, w') \<Rightarrow>
            let validEmbeddings = filter (\<lambda>e. length e > 0) embeddings
            in if length validEmbeddings = 0
               then (Inl (Error (js ''No valid embeddings were generated'')), w')
               else (Inr embeddings, w'))"

section \<open>Ingestion: \<open>processPDFDocument\<close> and the batch (process-pdf/route.ts)\<close>

text \<open>The download loop, \<open>maxAttempts = 3\<close>.\<close>

function downloadAttempts ::
  "env \<Rightarrow> world \<Rightarrow> jsstring \<Rightarrow> nat \<Rightarrow> (thrown + 8 word list) \<times> world" where
  "downloadAttempts orc w pdfUrl attempts =
     (if attempts < 3 then
        (case axios_get orc (length (log w)) of
           Inr pdfBuffer \<Rightarrow> (Inr pdfBuffer, request w (AxiosGet pdfUrl))
         | Inl downloadError \<Rightarrow>
             if attempts + 1 \<ge> 3
             then (Inl (Error (js ''Failed to download PDF after 3 attempts: ''
                                @ messageOr downloadError ''Unknown error'')),
                   request w (AxiosGet pdfUrl))
             else downloadAttempts orc (request w (AxiosGet pdfUrl)) pdfUrl (attempts + 1))
      else (Inl (Error (js ''PDF buffer was not initialized. Failed to download PDF.'')), w))"
  by pat_completeness auto
termination
  by (relation "measure (\<lambda>(orc, w, pdfUrl, attempts). 3 - attempts)") auto

declare downloadAttempts.simps [simp del]

text \<open>The two \<open>replace\<close> calls and the \<open>trim\<close> that clean the extracted text.\<close>

definition isControl :: "jschar \<Rightarrow> bool" where
  "isControl c \<longleftrightarrow>
     c \<le> 0x08 \<or> c = 0x0B \<or> c = 0x0C \<or> (0x0E \<le> c \<and> c \<le> 0x1F) \<or> (0x7F \<le> c \<and> c \<le> 0x9F)"

definition cleanText :: "jsstring \<Rightarrow> jsstring" where
  "cleanText t = trim (filter (\<lambda>c. \<not> isControl c) (filter (\<lambda>c. c \<noteq> 0) t))"

text \<open>The rows built for insertion, one per chunk, with the embedding of the same index.\<close>

definition chunkDataOf ::
  "env \<Rightarrow> world \<Rightarrow> jsstring \<Rightarrow> jsstring list \<Rightarrow> real list list \<Rightarrow> chunk_row list" where
  "chunkDataOf orc w modelNumber chunks embeddings =
     map (\<lambda>(index, chunk).
            \<lparr>model_number = modelNumber,
             content = substring0 chunk 50000,
             chunk_index = int index,
             page_number = int index div 5 + 1,
             embedding = JSON_stringify (embeddings ! index),
             processed_at = now orc (length (log w)) index\<rparr>)
         (enumerate 0 chunks)"

text \<open>
  The database block: the delete is issued first and its error is only logged; the
  insert follows in either case, and only its error is thrown.
\<close>

definition storeChunks ::
  "env \<Rightarrow> world \<Rightarrow> jsstring \<Rightarrow> chunk_row list \<Rightarrow> thrown option \<times> world" where
  "storeChunks orc w modelNumber chunkData =
     (let deleteError = delete_error orc (length (log w));
          w1 = request w (DeleteChunks modelNumber);
          w2 = (if deleteError = None
                then w1\<lparr>manual_chunks :=
                          filter (\<lambda>row. model_number row \<noteq> modelNumber) (manual_chunks w1)\<rparr>
                else w1);
          insertError = insert_error orc (length (log w2));
          w3 = request w2 (InsertChunks chunkData)
      in case insertError of
           Some e \<Rightarrow>
             (Some (Error (js ''Failed to store chunks in database: ''
                            @ messageOr e ''Unknown database error'')), w3)
         | None \<Rightarrow> (None, w3\<lparr>manual_chunks := manual_chunks w3 @ chunkData\<rparr>))"

record outcome =
  success :: bool
  chunksProcessed :: "nat option"
  error :: "jsstring option"
  modelNumber :: jsstring
  message :: jsstring

definition earlyFailure :: "jsstring \<Rightarrow> string \<Rightarrow> outcome" where
  "earlyFailure m msg =
     \<lparr>success = False, chunksProcessed = None, error = None, modelNumber = m,
      message = js msg\<rparr>"

text \<open>
  The body of the \<open>try\<close> of \<open>processPDFDocument\<close>, in three parts: \<open>Inl\<close> is what
  it throws, \<open>Inr\<close> what it returns. \<open>ingestChunks\<close> embeds and stores the chunks,
  \<open>ingestText\<close> cleans and chunks the extracted text, \<open>ingest\<close> validates, downloads
  and parses.
\<close>

text \<open>
  \<open>splitTextIntoChunks\<close> does not throw, so the \<open>catch\<close> around its call
  (\<open>Failed to chunk text\<close>) has no branch.
\<close>

definition ingestChunks ::
  "env \<Rightarrow> world \<Rightarrow> jsstring \<Rightarrow> jsstring list \<Rightarrow> (thrown + outcome) \<times> world" where
  "ingestChunks orc w m chunks =
     (case generateEmbeddings orc w chunks of
        (Inl embeddingError, w2) \<Rightarrow>
          (Inl (Error (js ''Failed to generate embeddings: ''
                        @ messageOr embeddingError ''Unknown embedding error'')), w2)
      | (Inr embeddings, w2) \<Rightarrow>
          if length embeddings \<noteq> length chunks
          then (Inl (Error (js ''Embedding count mismatch: expected ''
                             @ showNat (length chunks) @ js '', got ''
                             @ showNat (length embeddings))), w2)
          else
            (case storeChunks orc w2 m (chunkDataOf orc w2 m chunks embeddings) of
               (Some dbError, w3) \<Rightarrow> (Inl dbError, w3)
             | (None, w3) \<Rightarrow>
                 (Inr \<lparr>success = True,
                       chunksProcessed = Some (length chunks),
                       error = None,
                       modelNumber = m,
                       message = js ''Successfully processed ''
                                   @ showNat (length chunks) @ js '' chunks''\<rparr>, w3)))"

text \<open>The cap \<open>maxChunks = 50\<close> on the chunks of one document.\<close>

definition limitChunks :: "jsstring list \<Rightarrow> jsstring list" where
  "limitChunks chunks = (if length chunks > 50 then take 50 chunks else chunks)"

definition ingestText ::
  "env \<Rightarrow> world \<Rightarrow> jsstring \<Rightarrow> jsstring \<Rightarrow> (thrown + outcome) \<times> world" where
  "ingestText orc w m t =
     (if length t = 0 \<or> length (trim t) = 0
      then (Inr (earlyFailure m ''No text content found in PDF''), w)
      else if length (cleanText t) = 0
      then (Inr (earlyFailure m ''No valid text content after cleaning''), w)
      else
        let cleaned = (if int (length (cleanText t)) > 1000000
                       then substring0 (cleanText t) 1000000 else cleanText t);
            allChunks = splitTextIntoChunks cleaned 1000 100
        in if length allChunks = 0
           then (Inr (earlyFailure m ''No chunks created from text''), w)
           else ingestChunks orc w m (limitChunks allChunks))"

definition ingest ::
  "env \<Rightarrow> world \<Rightarrow> jsstring \<Rightarrow> jsstring \<Rightarrow> (thrown + outcome) \<times> world" where
  "ingest orc w m pdfUrl =
     (if length m = 0 \<or> length pdfUrl = 0
      then (Inl (Error (js ''Model number and PDF URL are required'')), w)
      else
        (case downloadAttempts orc w pdfUrl 0 of
           (Inl e, w1) \<Rightarrow> (Inl e, w1)
         | (Inr pdfBuffer, w1) \<Rightarrow>
             (case pdfParse orc pdfBuffer of
                Inl parseError \<Rightarrow>
                  (Inl (Error (js ''Failed to parse PDF: ''
                                @ messageOr parseError ''Unknown parsing error'')), w1)
              | Inr pdfData \<Rightarrow>
                  (case pdf_text pdfData of
                     None \<Rightarrow> (Inr (earlyFailure m ''No text content found in PDF''), w1)
                   | Some t \<Rightarrow> ingestText orc w1 m t))))"

definition processPDFDocument :: "env \<Rightarrow> world \<Rightarrow> jsstring \<Rightarrow> jsstring \<Rightarrow> outcome \<times> world" where
  "processPDFDocument orc w m pdfUrl =
     (case ingest orc w m pdfUrl of
        (Inr result, w') \<Rightarrow> (result, w')
      | (Inl e, w') \<Rightarrow>
          (\<lparr>success = False, chunksProcessed = None,
            error = Some (messageOr e ''Unknown error''),
            modelNumber = m,
            message = js ''Failed to process PDF: '' @ messageOr e ''Unknown error''\<rparr>, w'))"









section \<open>Properties stated about the routes, and example worlds\<close>

text \<open>A row whose stored embedding has as many components as the query embedding.\<close>

definition sameDimension :: "real list \<Rightarrow> chunk_row \<Rightarrow> bool" where
  "sameDimension queryEmbedding row \<longleftrightarrow>
     (case embedding row of Malformed \<Rightarrow> False
      | ArrayText v \<Rightarrow> length v = length queryEmbedding)"

text \<open>A row recorded with the empty embedding, the marker of a failed item.\<close>

definition failureMarker :: "chunk_row \<Rightarrow> bool" where
  "failureMarker row \<longleftrightarrow> embedding row = ArrayText []"

definition chunksOf :: "world \<Rightarrow> jsstring \<Rightarrow> chunk_row list" where
  "chunksOf w m = filter (\<lambda>row. model_number row = m) (manual_chunks w)"

definition otherChunks :: "world \<Rightarrow> jsstring \<Rightarrow> chunk_row list" where
  "otherChunks w m = filter (\<lambda>row. model_number row \<noteq> m) (manual_chunks w)"

definition withChunks :: "world \<Rightarrow> chunk_row list \<Rightarrow> world" where
  "withChunks w rows = w\<lparr>manual_chunks := rows\<rparr>"

text \<open>The document and sequence index of each result, \<open>None\<close> when retrieval threw.\<close>

definition resultKeys :: "thrown + retrieved_chunk list \<Rightarrow> (jsstring \<times> int) list option" where
  "resultKeys r =
     (case r of Inl e \<Rightarrow> None
      | Inr results \<Rightarrow> Some (map (\<lambda>c. (model_number c, chunk_index c)) results))"


text \<open>An environment in which every request succeeds, and three stored rows.\<close>

definition quietEnv :: env where
  "quietEnv =
     \<lparr>embedContent = (\<lambda>n. EmbedResult (Some [Some [1, 0]])),
      generateContent = (\<lambda>n. GenText (Some (js ''Replace the filter monthly.''))),
      axios_get = (\<lambda>n. Inr []),
      pdfParse = (\<lambda>b. Inr \<lparr>numpages = 1, pdf_text = Some (js ''Replace the filter.'')\<rparr>),
      select_error = (\<lambda>n. None),
      delete_error = (\<lambda>n. None),
      insert_error = (\<lambda>n. None),
      now = (\<lambda>n index. js ''T'')\<rparr>"

definition rowA :: chunk_row where
  "rowA = \<lparr>model_number = js ''A-1'', content = js ''alpha'', chunk_index = 0,
           page_number = 1, embedding = ArrayText [1, 0], processed_at = js ''T0''\<rparr>"

definition rowB :: chunk_row where
  "rowB = \<lparr>model_number = js ''B-2'', content = js ''beta'', chunk_index = 0,
           page_number = 1, embedding = ArrayText [1, 0, 0], processed_at = js ''T0''\<rparr>"

definition rowE :: chunk_row where
  "rowE = \<lparr>model_number = js ''A-1'', content = js ''gamma'', chunk_index = 1,
           page_number = 1, embedding = ArrayText [], processed_at = js ''T0''\<rparr>"

definition worldOf :: "chunk_row list \<Rightarrow> world" where
  "worldOf rows = \<lparr>manual_chunks = rows, manuals = [], log = []\<rparr>"

text \<open>The same environment with a database whose delete requests return an error.\<close>

definition deleteFailsEnv :: env where
  "deleteFailsEnv = quietEnv\<lparr>delete_error := (\<lambda>n. Some (Error (js ''connection reset'')))\<rparr>"




text \<open>The first result of the example retrievals below.\<close>

definition resultA :: retrieved_chunk where
  "resultA = \<lparr>model_number = js ''A-1'', content = js ''alpha'', chunk_index = 0,
              similarity = 1\<rparr>"

text \<open>A question that is absent, not a string, or a string of white space only.\<close>

fun blankQuestion :: "json option \<Rightarrow> bool" where
  "blankQuestion (Some (JString s)) = (trim s = [])"
| "blankQuestion _ = True"

definition askA1 :: ask_request where
  "askA1 = Fields (Some (JString (js ''How do I install it?''))) (Some (js ''A-1''))"



text \<open>
  A run of \<open>processPDFDocument\<close> that reports success ends with its delete request
  followed by its insert request. \<open>deleteErrorOf\<close> reads, from the world the run
  has left, the error that the delete request got.
\<close>

definition deleteErrorOf :: "env \<Rightarrow> world \<Rightarrow> thrown option" where
  "deleteErrorOf orc w' = delete_error orc (length (log w') - 2)"





section \<open>Evaluation\<close>

text \<open>A code equation that leaves a string shorter than the cut as it is.\<close>

lemma substring0_code [code]:
  "substring0 s n = (if int (length s) \<le> n then s else take (nat n) s)"
  by (simp add: substring0_def)

section \<open>The chunker\<close>

lemma loopBody_progress:
  assumes "loopBody t m ov s cs = Some (s', cs')"
  shows "s < s' \<and> (chooseEnd t m s - ov \<le> s \<longrightarrow> s' = s + max 1 (m - ov))"
  using assms unfolding loopBody_def Let_def
  by (auto split: if_splits)

lemma chunkLoop_count:
  "fst (snd (chunkLoop t m ov maxIt s it cs)) \<le> max maxIt it"
proof (induction t m ov maxIt s it cs rule: chunkLoop.induct)
  case (1 t m ov maxIt s it cs)
  show ?case
  proof (cases "s < of_nat (length t) \<and> it < maxIt")
    case True
    then show ?thesis using 1
      by (subst chunkLoop.simps) (auto split: option.splits)
  next
    case False
    then show ?thesis by (subst chunkLoop.simps) auto
  qed
qed

lemma clamp_gap: "50 \<le> of_int (clampChunkSize m) - clampOverlap m ov"
  unfolding clampChunkSize_def clampOverlap_def by (auto simp: min_def max_def)

lemma maxIterations_ge: "0 < m - ov \<Longrightarrow> 10 \<le> maxIterationsOf t m ov"
proof -
  assume "0 < m - ov"
  then have "0 \<le> (of_nat (length t) :: rat) / (m - ov)" by simp
  then have "0 \<le> \<lceil>(of_nat (length t) :: rat) / (m - ov)\<rceil>" by linarith
  then show ?thesis unfolding maxIterationsOf_def by simp
qed

text \<open>
  C8. The chunker terminates on every text and every choice of parameters. The loop
  is the total function \<open>chunkLoop\<close>, whose recursion descends on
  \<open>maxIterations - iterationCount\<close>. Every pass through the loop body that does not
  break leaves a strictly larger start offset, and when \<open>endIndex - overlap\<close> makes no
  progress the start advances by \<open>max 1 (maxChunkSize - overlap)\<close>; this holds for any
  values of the loop's size and overlap. The number of passes of a run never exceeds
  the safety ceiling \<open>maxIterations\<close>, which is a finite number because the divisor
  \<open>maxChunkSize - overlap\<close> is positive after the clamps.
\<close>

theorem chunker_terminates:
  "(loopBody t m ov s cs = Some (s', cs') \<longrightarrow>
      s < s' \<and> (chooseEnd t m s - ov \<le> s \<longrightarrow> s' = s + max 1 (m - ov)))
   \<and> fst (snd (runChunkLoop t maxChunkSize overlap))
       \<le> maxIterationsOf t (of_int (clampChunkSize maxChunkSize))
            (clampOverlap maxChunkSize overlap)
   \<and> 0 < of_int (clampChunkSize maxChunkSize) - clampOverlap maxChunkSize overlap"
proof -
  have gap: "0 < of_int (clampChunkSize maxChunkSize) - clampOverlap maxChunkSize overlap"
    using clamp_gap [of maxChunkSize overlap] by linarith
  have "fst (snd (runChunkLoop t maxChunkSize overlap))
          \<le> max (maxIterationsOf t (of_int (clampChunkSize maxChunkSize))
                   (clampOverlap maxChunkSize overlap)) 0"
    unfolding runChunkLoop_def Let_def by (rule chunkLoop_count)
  moreover have "10 \<le> maxIterationsOf t (of_int (clampChunkSize maxChunkSize))
                        (clampOverlap maxChunkSize overlap)"
    using gap by (rule maxIterations_ge)
  ultimately have count: "fst (snd (runChunkLoop t maxChunkSize overlap))
          \<le> maxIterationsOf t (of_int (clampChunkSize maxChunkSize))
                (clampOverlap maxChunkSize overlap)"
    by linarith
  show ?thesis using loopBody_progress [of t m ov s cs s' cs'] count gap by blast
qed

theorem chunker_terminates_witness:
  "loopBody (js ''abc'') 100 50 0 [] = Some (50, [js ''abc''])
   \<and> (0 :: rat) < 50
   \<and> fst (snd (runChunkLoop (js ''abc'') 100 50)) \<le> 11"
proof -
  have body: "loopBody (js ''abc'') 100 50 0 [] = Some (50, [js ''abc''])"
    by code_simp
  have ceiling: "maxIterationsOf (js ''abc'') (of_int (clampChunkSize 100)) (clampOverlap 100 50) = 11"
    by code_simp
  show ?thesis
    using chunker_terminates [of "js ''abc''" 100 50 0 "[]" 50 "[js ''abc'']" 100 50]
      body ceiling
    by simp
qed

text \<open>
  C7, as stated: no emitted chunk is longer than twice the target size, for any
  parameter choice. It fails for a target below 100: the function raises the
  requested size to 100 before chunking, so a request for size 10 on a text of 100
  letters yields one chunk of 100 characters, more than 2 * 10.
\<close>

theorem chunk_bound_counterexample:
  "replicate 100 (of_char CHR ''a'')
     \<in> set (splitTextIntoChunks (replicate 100 (of_char CHR ''a'')) 10 0)
   \<and> \<not> int (length (replicate 100 (of_char CHR ''a'' :: jschar))) \<le> 2 * 10"
proof -
  have "splitTextIntoChunks (replicate 100 (of_char CHR ''a'')) 10 0
          = [replicate 100 (of_char CHR ''a'')]"
    by code_simp
  then show ?thesis by simp
qed

text \<open>
  C7, amended: every emitted chunk is non-empty and at most twice the effective
  target size, which is the requested size clamped to the range 100 to 10000.
\<close>

theorem chunk_bound:
  "chunk \<in> set (splitTextIntoChunks t maxChunkSize overlap) \<Longrightarrow>
     0 < length chunk \<and> int (length chunk) \<le> 2 * clampChunkSize maxChunkSize"
  unfolding splitTextIntoChunks_def Let_def
  by (auto split: if_splits)

theorem chunk_bound_witness:
  "replicate 100 (of_char CHR ''a'')
     \<in> set (splitTextIntoChunks (replicate 100 (of_char CHR ''a'')) 10 0)
   \<and> int (length (replicate 100 (of_char CHR ''a'' :: jschar))) \<le> 2 * clampChunkSize 10"
proof -
  have "splitTextIntoChunks (replicate 100 (of_char CHR ''a'')) 10 0
          = [replicate 100 (of_char CHR ''a'')]"
    by code_simp
  then have mem: "replicate 100 (of_char CHR ''a'')
     \<in> set (splitTextIntoChunks (replicate 100 (of_char CHR ''a'')) 10 0)"
    by simp
  show ?thesis using chunk_bound [OF mem] mem by simp
qed

section \<open>Retrieval\<close>

lemma set_sliceTo: "set (sliceTo xs l) \<subseteq> set xs"
  by (auto simp: sliceTo_def dest: in_set_takeD)

lemma scoreChunk_Some:
  assumes "scoreChunk q c = Some r"
  shows "model_number r = model_number c \<and> content r = content c
         \<and> chunk_index r = chunk_index c
         \<and> (\<exists>v. embedding c = ArrayText v \<and> length v = length q)"
  using assms unfolding scoreChunk_def JSON_parse_def cosineSimilarity_def Let_def
  by (auto split: json_text.splits if_splits sum.splits)

lemma kept_from:
  assumes "r \<in> set (map the (filter (\<lambda>x. x \<noteq> None) (map f xs)))"
  shows "\<exists>c \<in> set xs. f c = Some r"
  using assms by auto

lemma retrieved_from:
  assumes "fst (retrieveRelevantChunks orc w q f l) = Inr results" and "r \<in> set results"
  shows "\<exists>c \<in> set (manual_chunks w). scoreChunk q c = Some r
           \<and> (provided f \<longrightarrow> Some (model_number c) = f)"
proof (cases "provided f")
  case True
  then obtain m where f: "f = Some m" by (cases f) auto
  from assms True f have "r \<in> set (sliceTo (sort_key (\<lambda>chunk. - similarity chunk)
        (map the (filter (\<lambda>x. x \<noteq> None) (map (scoreChunk q)
           (filter (\<lambda>chunk. model_number chunk = m) (manual_chunks w)))))) l)"
    unfolding retrieveRelevantChunks_def Let_def
    by (auto split: option.splits if_splits)
  then have "r \<in> set (map the (filter (\<lambda>x. x \<noteq> None) (map (scoreChunk q)
           (filter (\<lambda>chunk. model_number chunk = m) (manual_chunks w)))))"
    using set_sliceTo by fastforce
  from kept_from [OF this] show ?thesis using f by auto
next
  case False
  from assms False have "r \<in> set (sliceTo (sort_key (\<lambda>chunk. - similarity chunk)
        (map the (filter (\<lambda>x. x \<noteq> None) (map (scoreChunk q) (manual_chunks w))))) l)"
    unfolding retrieveRelevantChunks_def Let_def
    by (auto split: option.splits if_splits)
  then have "r \<in> set (map the (filter (\<lambda>x. x \<noteq> None) (map (scoreChunk q) (manual_chunks w))))"
    using set_sliceTo by fastforce
  from kept_from [OF this] show ?thesis using False by auto
qed

text \<open>The result of a retrieval without the early return for an empty read.\<close>

lemma retrieve_fst:
  "fst (retrieveRelevantChunks orc w q f l) =
     (case select_error orc (length (log w)) of
        Some e \<Rightarrow> Inl e
      | None \<Rightarrow>
          Inr (sliceTo (sort_key (\<lambda>chunk. - similarity chunk)
                 (map the (filter (\<lambda>x. x \<noteq> None) (map (scoreChunk q)
                    (case (if provided f then f else None) of
                       None \<Rightarrow> manual_chunks w
                     | Some m \<Rightarrow> filter (\<lambda>chunk. model_number chunk = m) (manual_chunks w))))))
               l))"
  unfolding retrieveRelevantChunks_def Let_def
  by (auto simp: sliceTo_def split: option.splits)

lemma filter_scored:
  assumes "\<And>c. c \<in> set xs \<Longrightarrow> \<not> P c \<Longrightarrow> f c = None"
  shows "filter (\<lambda>x. x \<noteq> None) (map f (filter P xs)) = filter (\<lambda>x. x \<noteq> None) (map f xs)"
  using assms by (induction xs) auto

text \<open>Rows that score to \<open>null\<close> can be taken out of the table without changing a retrieval.\<close>

lemma retrieve_ignores:
  assumes "\<And>c. c \<in> set (manual_chunks w) \<Longrightarrow> \<not> P c \<Longrightarrow> scoreChunk q c = None"
  shows "fst (retrieveRelevantChunks orc w q f l)
       = fst (retrieveRelevantChunks orc (withChunks w (filter P (manual_chunks w))) q f l)"
proof -
  have a: "filter (\<lambda>x. x \<noteq> None) (map (scoreChunk q) (filter P (manual_chunks w)))
         = filter (\<lambda>x. x \<noteq> None) (map (scoreChunk q) (manual_chunks w))"
    using assms by (rule filter_scored)
  have b: "\<And>m. filter (\<lambda>x. x \<noteq> None) (map (scoreChunk q)
              (filter (\<lambda>chunk. model_number chunk = m) (filter P (manual_chunks w))))
         = filter (\<lambda>x. x \<noteq> None) (map (scoreChunk q)
              (filter (\<lambda>chunk. model_number chunk = m) (manual_chunks w)))"
  proof -
    fix m
    have "filter (\<lambda>chunk. model_number chunk = m) (filter P (manual_chunks w))
        = filter P (filter (\<lambda>chunk. model_number chunk = m) (manual_chunks w))"
      by (simp add: conj_commute)
    moreover have "filter (\<lambda>x. x \<noteq> None) (map (scoreChunk q)
              (filter P (filter (\<lambda>chunk. model_number chunk = m) (manual_chunks w))))
         = filter (\<lambda>x. x \<noteq> None) (map (scoreChunk q)
              (filter (\<lambda>chunk. model_number chunk = m) (manual_chunks w)))"
      using assms by (intro filter_scored) auto
    ultimately show "filter (\<lambda>x. x \<noteq> None) (map (scoreChunk q)
              (filter (\<lambda>chunk. model_number chunk = m) (filter P (manual_chunks w))))
         = filter (\<lambda>x. x \<noteq> None) (map (scoreChunk q)
              (filter (\<lambda>chunk. model_number chunk = m) (manual_chunks w)))" by simp
  qed
  show ?thesis
    using a b unfolding retrieve_fst withChunks_def
    by (auto split: option.splits)
qed

lemma mismatch_None:
  "\<not> sameDimension q c \<Longrightarrow> scoreChunk q c = None"
  unfolding sameDimension_def scoreChunk_def JSON_parse_def cosineSimilarity_def
  by (auto split: json_text.splits)

lemma marker_None:
  "q \<noteq> [] \<Longrightarrow> failureMarker c \<Longrightarrow> scoreChunk q c = None"
  unfolding failureMarker_def scoreChunk_def JSON_parse_def cosineSimilarity_def
  by (auto split: json_text.splits)

lemma score_rowA: "scoreChunk [1, 0] rowA = Some resultA"
  by (simp add: rowA_def resultA_def scoreChunk_def JSON_parse_def cosineSimilarity_def)

lemma retrieve_AB:
  "fst (retrieveRelevantChunks quietEnv (worldOf [rowA, rowB]) [1, 0] None 5) = Inr [resultA]"
  unfolding retrieve_fst
  by (simp add: quietEnv_def worldOf_def rowA_def rowB_def resultA_def scoreChunk_def
      JSON_parse_def cosineSimilarity_def sliceTo_def)

lemma retrieve_AE:
  "fst (retrieveRelevantChunks quietEnv (worldOf [rowA, rowE]) [1, 0] None 5) = Inr [resultA]"
  unfolding retrieve_fst
  by (simp add: quietEnv_def worldOf_def rowA_def rowE_def resultA_def scoreChunk_def
      JSON_parse_def cosineSimilarity_def sliceTo_def)

lemma retrieve_ABE_filtered:
  "fst (retrieveRelevantChunks quietEnv (worldOf [rowA, rowB, rowE]) [1, 0] (Some (js ''A-1'')) 5)
     = Inr [resultA]"
  unfolding retrieve_fst
  by (simp add: quietEnv_def worldOf_def rowA_def rowB_def rowE_def resultA_def scoreChunk_def
      JSON_parse_def cosineSimilarity_def sliceTo_def js_def)

text \<open>
  C1, as stated: a candidate whose embedding has another dimensionality than the
  query embedding makes the retrieval fail. It does not: the table holds \<open>rowA\<close> with
  two components and \<open>rowB\<close> with three, the query embedding has two, and the
  retrieval returns the result computed from \<open>rowA\<close> alone.
\<close>

theorem mismatch_counterexample:
  "\<not> sameDimension [1, 0] rowB
   \<and> fst (retrieveRelevantChunks quietEnv (worldOf [rowA, rowB]) [1, 0] None 5) = Inr [resultA]"
  using retrieve_AB by (simp add: sameDimension_def rowB_def)

text \<open>
  C1, amended: when the read of the store succeeds, the retrieval does not fail
  because of a candidate whose embedding cannot be parsed or has another
  dimensionality than the query embedding; such a candidate is skipped, and the
  results are those computed from the remaining candidates.
\<close>

theorem mismatch_skipped:
  assumes "select_error orc (length (log w)) = None"
  shows "\<exists>results. fst (retrieveRelevantChunks orc w q f l) = Inr results
           \<and> fst (retrieveRelevantChunks orc
                    (withChunks w (filter (sameDimension q) (manual_chunks w))) q f l)
               = Inr results"
proof -
  have "fst (retrieveRelevantChunks orc w q f l)
      = fst (retrieveRelevantChunks orc
               (withChunks w (filter (sameDimension q) (manual_chunks w))) q f l)"
    by (rule retrieve_ignores) (rule mismatch_None)
  moreover have "\<exists>results. fst (retrieveRelevantChunks orc w q f l) = Inr results"
    using assms unfolding retrieve_fst by simp
  ultimately show ?thesis by auto
qed

theorem mismatch_skipped_witness:
  "select_error quietEnv (length (log (worldOf [rowA, rowB]))) = None
   \<and> fst (retrieveRelevantChunks quietEnv
            (withChunks (worldOf [rowA, rowB])
               (filter (sameDimension [1, 0]) (manual_chunks (worldOf [rowA, rowB]))))
            [1, 0] None 5)
       = Inr [resultA]"
proof -
  have ok: "select_error quietEnv (length (log (worldOf [rowA, rowB]))) = None"
    by (simp add: quietEnv_def)
  from mismatch_skipped [OF ok, of "[1, 0]" None 5] retrieve_AB ok show ?thesis by auto
qed

text \<open>
  C6, as stated: no retrieval result references a chunk stored with the empty
  embedding, for every query. It fails for a query whose embedding is itself empty
  (the provider's \<open>values\<close> may be the empty array, which the route accepts): the
  lengths agree, so the failure marker \<open>rowE\<close> is scored and returned.
\<close>

theorem failure_marker_counterexample:
  "failureMarker rowE
   \<and> resultKeys (fst (retrieveRelevantChunks quietEnv (worldOf [rowE]) [] None 5))
       = Some [(js ''A-1'', 1)]"
  unfolding retrieve_fst
  by (simp add: quietEnv_def worldOf_def rowE_def scoreChunk_def JSON_parse_def
      cosineSimilarity_def sliceTo_def resultKeys_def failureMarker_def)

text \<open>
  C6, amended: for every query whose embedding is not empty, with or without a
  document filter and over any stored corpus, the retrieval is what it would be if
  the chunks stored with the empty embedding were not in the store, and every
  result is computed from a stored chunk whose embedding is not empty.
\<close>

theorem failure_markers_skipped:
  assumes "q \<noteq> []"
  shows "fst (retrieveRelevantChunks orc w q f l)
          = fst (retrieveRelevantChunks orc
                   (withChunks w (filter (\<lambda>row. \<not> failureMarker row) (manual_chunks w))) q f l)
         \<and> (\<forall>results r. fst (retrieveRelevantChunks orc w q f l) = Inr results \<longrightarrow>
                r \<in> set results \<longrightarrow>
                (\<exists>row \<in> set (manual_chunks w). \<not> failureMarker row \<and> scoreChunk q row = Some r))"
proof -
  have "fst (retrieveRelevantChunks orc w q f l)
          = fst (retrieveRelevantChunks orc
                   (withChunks w (filter (\<lambda>row. \<not> failureMarker row) (manual_chunks w))) q f l)"
    by (rule retrieve_ignores) (use assms marker_None in auto)
  moreover have "\<exists>row \<in> set (manual_chunks w). \<not> failureMarker row \<and> scoreChunk q row = Some r"
    if "fst (retrieveRelevantChunks orc w q f l) = Inr results" and "r \<in> set results"
    for results r
  proof -
    from retrieved_from [OF that] obtain c where
      c: "c \<in> set (manual_chunks w)" "scoreChunk q c = Some r" by blast
    with marker_None [OF assms, of c] have "\<not> failureMarker c" by auto
    with c show ?thesis by blast
  qed
  ultimately show ?thesis by blast
qed

theorem failure_markers_skipped_witness:
  "[1, 0 :: real] \<noteq> []
   \<and> fst (retrieveRelevantChunks quietEnv (worldOf [rowA, rowE]) [1, 0] None 5) = Inr [resultA]
   \<and> fst (retrieveRelevantChunks quietEnv
            (withChunks (worldOf [rowA, rowE])
               (filter (\<lambda>row. \<not> failureMarker row) (manual_chunks (worldOf [rowA, rowE]))))
            [1, 0] None 5) = Inr [resultA]
   \<and> \<not> failureMarker rowA \<and> scoreChunk [1, 0] rowA = Some resultA"
proof -
  have ne: "[1, 0 :: real] \<noteq> []" by simp
  have "\<not> failureMarker rowA" by (simp add: failureMarker_def rowA_def)
  with failure_markers_skipped [OF ne, of quietEnv "worldOf [rowA, rowE]" None 5]
    retrieve_AE score_rowA
  show ?thesis by simp
qed

text \<open>
  C9. For every query that carries a document filter (\<open>provided\<close>: a non-empty
  string, the condition under which the route filters and reports the filter),
  every returned result carries the filtered document identifier and is computed
  from a stored chunk of that document, whatever else the corpus holds.
\<close>

theorem filter_respected:
  assumes "provided filt"
    and "fst (retrieveRelevantChunks orc w q filt l) = Inr results"
    and "r \<in> set results"
  shows "Some (model_number r) = filt
         \<and> (\<exists>row \<in> set (manual_chunks w).
               Some (model_number row) = filt \<and> scoreChunk q row = Some r)"
proof -
  from retrieved_from [OF assms(2,3)] assms(1) obtain c where
    c: "c \<in> set (manual_chunks w)" "scoreChunk q c = Some r" "Some (model_number c) = filt"
    by blast
  moreover from scoreChunk_Some [OF c(2)] have "model_number r = model_number c" by simp
  ultimately show ?thesis by auto
qed

theorem filter_respected_witness:
  "provided (Some (js ''A-1''))
   \<and> fst (retrieveRelevantChunks quietEnv (worldOf [rowA, rowB, rowE]) [1, 0]
            (Some (js ''A-1'')) 5) = Inr [resultA]
   \<and> resultA \<in> set [resultA]
   \<and> Some (model_number resultA) = Some (js ''A-1'')"
proof -
  have p: "provided (Some (js ''A-1''))" by (simp add: js_def)
  have m: "resultA \<in> set [resultA]" by simp
  from filter_respected [OF p retrieve_ABE_filtered m] p retrieve_ABE_filtered
  show ?thesis by simp
qed

section \<open>The Ask route\<close>

text \<open>
  C10. For every Ask request whose body has been read and whose question is absent,
  not a string, or only white space, the response has status 400 and the world is
  returned as it was: the request log has no new entry (no embedding, retrieval or
  generation call) and both tables are unchanged.
\<close>

theorem blank_question_rejected:
  assumes "blankQuestion question"
  shows "status (fst (POST_ask orc w (Fields question mn))) = 400
         \<and> snd (POST_ask orc w (Fields question mn)) = w"
  using assms unfolding POST_ask_def
  by (cases question rule: blankQuestion.cases) auto

theorem blank_question_rejected_witness:
  "blankQuestion (Some (JString (js ''   '')))
   \<and> status (fst (POST_ask quietEnv (worldOf [rowA]) (Fields (Some (JString (js ''   ''))) None))) = 400
   \<and> snd (POST_ask quietEnv (worldOf [rowA]) (Fields (Some (JString (js ''   ''))) None))
       = worldOf [rowA]"
proof -
  have b: "blankQuestion (Some (JString (js ''   '')))"
    by (simp add: trim_def js_def isWhiteSpace_def)
  show ?thesis using blank_question_rejected [OF b] b by simp
qed

lemma ask_with_chunks:
  "status (fst (POST_ask quietEnv (worldOf [rowA, rowB]) askA1)) = 200
   \<and> field (body (fst (POST_ask quietEnv (worldOf [rowA, rowB]) askA1))) ''model_number''
       = Some (JString (js ''A-1''))
   \<and> field (body (fst (POST_ask quietEnv (worldOf [rowA, rowB]) askA1))) ''answer''
       = Some (JString (js ''Replace the filter monthly.''))"
  by (simp add: POST_ask_def askA1_def trim_def isWhiteSpace_def js_def generateQueryEmbedding_def
      quietEnv_def worldOf_def request_def retrieveRelevantChunks_def rowA_def rowB_def
      scoreChunk_def JSON_parse_def cosineSimilarity_def sliceTo_def generateAnswer_def)

text \<open>
  C5. Every non-error response of Ask should carry the document filter field, the
  response for no relevant chunks included. The route builds that response
  without the field: asking about model A-1 while the store holds only a chunk of
  B-2 is answered with status 200, the canned answer, empty sources and the
  question, and the body has no \<open>model_number\<close>. With a chunk of A-1 in the store
  the same request is answered with the field set (\<open>ask_with_chunks\<close>).
\<close>

theorem no_chunks_response_omits_filter:
  "POST_ask quietEnv (worldOf [rowB]) askA1 =
     (\<lparr>status = 200,
       body = JObject
         [(''answer'', JString (js ''I don't have manual information available for model A-1 to answer your question.'')),
          (''sources'', JArray []),
          (''question'', JString (js ''How do I install it?''))]\<rparr>,
      \<lparr>manual_chunks = [rowB], manuals = [],
       log = [EmbedContent RETRIEVAL_QUERY (js ''How do I install it?''),
              SelectChunks (Some (js ''A-1''))]\<rparr>)
   \<and> field (body (fst (POST_ask quietEnv (worldOf [rowB]) askA1))) ''model_number'' = None"
  by (simp add: POST_ask_def askA1_def trim_def isWhiteSpace_def js_def generateQueryEmbedding_def
      quietEnv_def worldOf_def request_def retrieveRelevantChunks_def rowB_def noInformation_def)

theorem no_chunks_response_omits_filter_witness:
  "status (fst (POST_ask quietEnv (worldOf [rowB]) askA1)) = 200
   \<and> field (body (fst (POST_ask quietEnv (worldOf [rowB]) askA1))) ''sources'' = Some (JArray [])
   \<and> field (body (fst (POST_ask quietEnv (worldOf [rowB]) askA1))) ''model_number'' = None"
  using no_chunks_response_omits_filter by simp

section \<open>The embedding client\<close>














section \<open>Ingestion of one document\<close>

lemma request_tables [simp]:
  "manual_chunks (request w c) = manual_chunks w" "manuals (request w c) = manuals w"
  "log (request w c) = log w @ [c]"
  by (simp_all add: request_def)

lemma embedAttempts_tables:
  "manual_chunks (snd (embedAttempts orc w p a)) = manual_chunks w"
proof (induction orc w p a rule: embedAttempts.induct)
  case (1 orc w p a)
  show ?case
    by (subst embedAttempts.simps) (use 1 in \<open>auto split: option.splits\<close>)
qed

lemma embedItem_tables: "manual_chunks (snd (embedItem orc w c)) = manual_chunks w"
  unfolding embedItem_def Let_def by (simp add: embedAttempts_tables)

lemma embedAll_tables: "manual_chunks (snd (embedAll orc w cs acc)) = manual_chunks w"
proof (induction cs arbitrary: w acc)
  case Nil
  then show ?case by simp
next
  case (Cons c cs)
  obtain e w' where e: "embedItem orc w c = (e, w')" by (cases "embedItem orc w c")
  then have "manual_chunks w' = manual_chunks w" using embedItem_tables [of orc w c] by simp
  then show ?case using e Cons.IH [of w' "acc @ [e]"] by simp
qed

lemma generateEmbeddings_tables:
  "manual_chunks (snd (generateEmbeddings orc w cs)) = manual_chunks w"
  unfolding generateEmbeddings_def Let_def
  using embedAll_tables [of orc w cs "[]"]
  by (auto split: prod.splits)

lemma downloadAttempts_tables:
  "manual_chunks (snd (downloadAttempts orc w u a)) = manual_chunks w"
proof (induction orc w u a rule: downloadAttempts.induct)
  case (1 orc w u a)
  show ?case
    by (subst downloadAttempts.simps) (use 1 in \<open>auto split: sum.splits\<close>)
qed

lemma chunkData_model: "row \<in> set (chunkDataOf orc w m chunks embeddings) \<Longrightarrow> model_number row = m"
  unfolding chunkDataOf_def by auto

lemma chunkData_index:
  "map chunk_index (chunkDataOf orc w m chunks embeddings) = map int [0..<length chunks]"
proof -
  have "map chunk_index (chunkDataOf orc w m chunks embeddings)
         = map (\<lambda>p. int (fst p)) (enumerate 0 chunks)"
    unfolding chunkDataOf_def by (simp add: case_prod_beta o_def)
  also have "\<dots> = map int (map fst (enumerate 0 chunks))" by (simp only: map_map o_def)
  also have "\<dots> = map int [0..<length chunks]" by (simp only: map_fst_enumerate add_0)
  finally show ?thesis .
qed

lemma storeChunks_ok:
  assumes "storeChunks orc w m cd = (None, w')"
  shows "log w' = log w @ [DeleteChunks m, InsertChunks cd]
         \<and> (delete_error orc (length (log w)) = None \<longrightarrow>
              manual_chunks w' = otherChunks w m @ cd)"
  using assms unfolding storeChunks_def Let_def otherChunks_def
  by (auto split: option.splits if_splits)

lemma ingestChunks_success:
  assumes "ingestChunks orc w m chunks = (Inr r, w3)"
  shows "\<exists>embeddings w2.
           length embeddings = length chunks
           \<and> manual_chunks w2 = manual_chunks w
           \<and> storeChunks orc w2 m (chunkDataOf orc w2 m chunks embeddings) = (None, w3)
           \<and> r = \<lparr>success = True, chunksProcessed = Some (length chunks), error = None,
                   modelNumber = m,
                   message = js ''Successfully processed '' @ showNat (length chunks)
                               @ js '' chunks''\<rparr>"
proof -
  obtain g w2 where g: "generateEmbeddings orc w chunks = (g, w2)"
    by (cases "generateEmbeddings orc w chunks")
  have t: "manual_chunks w2 = manual_chunks w"
    using generateEmbeddings_tables [of orc w chunks] g by simp
  from assms g obtain embeddings where e: "g = Inr embeddings" "length embeddings = length chunks"
    unfolding ingestChunks_def by (cases g) (auto split: if_splits)
  obtain d w3' where s: "storeChunks orc w2 m (chunkDataOf orc w2 m chunks embeddings) = (d, w3')"
    by (cases "storeChunks orc w2 m (chunkDataOf orc w2 m chunks embeddings)")
  from assms g e s have "d = None" "w3' = w3"
    "r = \<lparr>success = True, chunksProcessed = Some (length chunks), error = None,
                   modelNumber = m,
                   message = js ''Successfully processed '' @ showNat (length chunks)
                               @ js '' chunks''\<rparr>"
    unfolding ingestChunks_def by (auto split: option.splits)
  with t e s show ?thesis by blast
qed

lemma limitChunks_nonempty: "chunks \<noteq> [] \<Longrightarrow> limitChunks chunks \<noteq> []"
  unfolding limitChunks_def by simp

lemma earlyFailure_fields [simp]:
  "\<not> success (earlyFailure m msg)" "modelNumber (earlyFailure m msg) = m"
  unfolding earlyFailure_def by simp_all

lemma ingestText_result:
  assumes "ingestText orc w m t = (Inr r, w3)"
  shows "(\<not> success r \<and> modelNumber r = m)
         \<or> (\<exists>chunks. chunks \<noteq> [] \<and> ingestChunks orc w m chunks = (Inr r, w3))"
proof -
  define cleaned where "cleaned = (if int (length (cleanText t)) > 1000000
                       then substring0 (cleanText t) 1000000 else cleanText t)"
  define allChunks where "allChunks = splitTextIntoChunks cleaned 1000 100"
  show ?thesis
  proof (cases "length t = 0 \<or> length (trim t) = 0 \<or> length (cleanText t) = 0
                  \<or> length allChunks = 0")
    case True
    with assms have "\<exists>msg. r = earlyFailure m msg"
      unfolding ingestText_def Let_def allChunks_def cleaned_def
      by (auto split: if_splits)
    then show ?thesis by auto
  next
    case False
    with assms have "ingestChunks orc w m (limitChunks allChunks) = (Inr r, w3)"
      unfolding ingestText_def Let_def allChunks_def cleaned_def
      by (simp split: if_splits)
    moreover from False have "limitChunks allChunks \<noteq> []"
      by (intro limitChunks_nonempty) auto
    ultimately show ?thesis by blast
  qed
qed

lemma ingest_result:
  assumes "ingest orc w m url = (Inr r, w3)"
  shows "(\<not> success r \<and> modelNumber r = m)
         \<or> (\<exists>chunks w1. chunks \<noteq> [] \<and> manual_chunks w1 = manual_chunks w
               \<and> ingestChunks orc w1 m chunks = (Inr r, w3))"
proof -
  from assms have ne: "\<not> (length m = 0 \<or> length url = 0)"
    unfolding ingest_def by (auto split: if_splits)
  obtain d w1 where d: "downloadAttempts orc w url 0 = (d, w1)"
    by (cases "downloadAttempts orc w url 0")
  have t: "manual_chunks w1 = manual_chunks w"
    using downloadAttempts_tables [of orc w url 0] d by simp
  from assms ne d obtain buf where buf: "d = Inr buf"
    unfolding ingest_def by (cases d) auto
  from assms ne d buf obtain pdfData where p: "pdfParse orc buf = Inr pdfData"
    unfolding ingest_def by (cases "pdfParse orc buf") auto
  show ?thesis
  proof (cases "pdf_text pdfData")
    case None
    with assms ne d buf p have "r = earlyFailure m ''No text content found in PDF''"
      unfolding ingest_def by simp
    then show ?thesis by simp
  next
    case (Some t')
    with assms ne d buf p have "ingestText orc w1 m t' = (Inr r, w3)"
      unfolding ingest_def by simp
    from ingestText_result [OF this] t show ?thesis by blast
  qed
qed

lemma processPDF_cases:
  assumes "success (fst (processPDFDocument orc w m url))"
  shows "\<exists>chunks embeddings w2 w3.
        chunks \<noteq> [] \<and> length embeddings = length chunks
        \<and> manual_chunks w2 = manual_chunks w
        \<and> storeChunks orc w2 m (chunkDataOf orc w2 m chunks embeddings) = (None, w3)
        \<and> processPDFDocument orc w m url =
             (\<lparr>success = True, chunksProcessed = Some (length chunks), error = None,
               modelNumber = m,
               message = js ''Successfully processed '' @ showNat (length chunks) @ js '' chunks''\<rparr>, w3)"
proof -
  obtain i w3 where i: "ingest orc w m url = (i, w3)" by (cases "ingest orc w m url")
  from assms i obtain r where r: "i = Inr r" "success r" "processPDFDocument orc w m url = (r, w3)"
    unfolding processPDFDocument_def by (cases i) auto
  have "ingest orc w m url = (Inr r, w3)" using i r(1) by simp
  from ingest_result [OF this] r(2)
  obtain chunks w1 where c: "chunks \<noteq> []" "manual_chunks w1 = manual_chunks w"
      "ingestChunks orc w1 m chunks = (Inr r, w3)"
    by blast
  from ingestChunks_success [OF c(3)] obtain embeddings w2 where
    e: "length embeddings = length chunks" "manual_chunks w2 = manual_chunks w1"
       "storeChunks orc w2 m (chunkDataOf orc w2 m chunks embeddings) = (None, w3)"
       "r = \<lparr>success = True, chunksProcessed = Some (length chunks), error = None,
                   modelNumber = m,
                   message = js ''Successfully processed '' @ showNat (length chunks)
                               @ js '' chunks''\<rparr>"
    by blast
  have "manual_chunks w2 = manual_chunks w" using e(2) c(2) by simp
  with c(1) e(1,3) r(3) [unfolded e(4)] show ?thesis by blast
qed




lemma chunksOf_replaced:
  assumes "\<And>row. row \<in> set cd \<Longrightarrow> model_number row = m"
  shows "filter (\<lambda>row. model_number row = m) (otherChunks w m @ cd) = cd"
    and "filter (\<lambda>row. model_number row \<noteq> m) (otherChunks w m @ cd) = otherChunks w m"
  using assms unfolding otherChunks_def by (auto simp: filter_id_conv filter_empty_conv)

lemma reingest_delete_fails:
  "success (fst (processPDFDocument deleteFailsEnv (worldOf [rowA, rowE]) (js ''A-1'') (js ''u'')))
   \<and> chunksProcessed (fst (processPDFDocument deleteFailsEnv (worldOf [rowA, rowE])
                             (js ''A-1'') (js ''u''))) = Some 1
   \<and> length (chunksOf (worldOf [rowA, rowE]) (js ''A-1'')) = 2
   \<and> length (chunksOf (snd (processPDFDocument deleteFailsEnv (worldOf [rowA, rowE])
                               (js ''A-1'') (js ''u''))) (js ''A-1'')) = 3"
  by code_simp

lemma reingest_quiet:
  "success (fst (processPDFDocument quietEnv (worldOf [rowA, rowE, rowB]) (js ''A-1'') (js ''u'')))
   \<and> deleteErrorOf quietEnv
        (snd (processPDFDocument quietEnv (worldOf [rowA, rowE, rowB]) (js ''A-1'') (js ''u'')))
       = None
   \<and> chunksProcessed (fst (processPDFDocument quietEnv (worldOf [rowA, rowE, rowB])
                             (js ''A-1'') (js ''u''))) = Some 1
   \<and> otherChunks (worldOf [rowA, rowE, rowB]) (js ''A-1'') = [rowB]"
  by code_simp

text \<open>
  C2, as stated: after a completed ingestion run the store holds exactly the chunks
  of that run for the document. The route issues the delete and, when the delete
  returns an error, logs it and inserts all the same: the document had two chunks,
  the run produces one and reports success, and the store then holds three.
\<close>

theorem replace_counterexample:
  "success (fst (processPDFDocument deleteFailsEnv (worldOf [rowA, rowE]) (js ''A-1'') (js ''u'')))
   \<and> chunksProcessed (fst (processPDFDocument deleteFailsEnv (worldOf [rowA, rowE])
                             (js ''A-1'') (js ''u''))) = Some 1
   \<and> length (chunksOf (snd (processPDFDocument deleteFailsEnv (worldOf [rowA, rowE])
                               (js ''A-1'') (js ''u''))) (js ''A-1'')) = 3"
  using reingest_delete_fails by simp

text \<open>
  C2, amended: after an ingestion run that reports success and whose delete
  request returned no error, the store holds for the document exactly the rows
  that the run inserted, as many as the run reports, indexed from 0, and the rows
  of every other document are as before.
\<close>

theorem replace_semantics:
  assumes "success (fst (processPDFDocument orc w m url))"
    and "deleteErrorOf orc (snd (processPDFDocument orc w m url)) = None"
  shows "\<exists>chunkData.
           last (log (snd (processPDFDocument orc w m url))) = InsertChunks chunkData
         \<and> manual_chunks (snd (processPDFDocument orc w m url)) = otherChunks w m @ chunkData
         \<and> chunksOf (snd (processPDFDocument orc w m url)) m = chunkData
         \<and> otherChunks (snd (processPDFDocument orc w m url)) m = otherChunks w m
         \<and> chunksProcessed (fst (processPDFDocument orc w m url)) = Some (length chunkData)
         \<and> map chunk_index chunkData = map int [0..<length chunkData]"
proof -
  from processPDF_cases [OF assms(1)] obtain chunks embeddings w2 w3 where
    c: "chunks \<noteq> []" "length embeddings = length chunks" "manual_chunks w2 = manual_chunks w"
       "storeChunks orc w2 m (chunkDataOf orc w2 m chunks embeddings) = (None, w3)"
       "processPDFDocument orc w m url =
          (\<lparr>success = True, chunksProcessed = Some (length chunks), error = None,
            modelNumber = m,
            message = js ''Successfully processed '' @ showNat (length chunks) @ js '' chunks''\<rparr>, w3)"
    by blast
  define cd where "cd = chunkDataOf orc w2 m chunks embeddings"
  from storeChunks_ok [OF c(4)] have
    l: "log w3 = log w2 @ [DeleteChunks m, InsertChunks cd]"
    and d: "delete_error orc (length (log w2)) = None \<longrightarrow> manual_chunks w3 = otherChunks w2 m @ cd"
    unfolding cd_def by simp_all
  have "deleteErrorOf orc w3 = delete_error orc (length (log w2))"
    unfolding deleteErrorOf_def l by simp
  with assms(2) c(5) d have rows: "manual_chunks w3 = otherChunks w2 m @ cd" by simp
  have o: "otherChunks w2 m = otherChunks w m" unfolding otherChunks_def c(3) ..
  have len: "length cd = length chunks" unfolding cd_def chunkDataOf_def by simp
  have m: "\<And>row. row \<in> set cd \<Longrightarrow> model_number row = m"
    unfolding cd_def by (rule chunkData_model)
  have "chunksOf w3 m = cd" "otherChunks w3 m = otherChunks w m"
    unfolding chunksOf_def rows o
    using chunksOf_replaced [of cd m w, OF m]
    by (simp_all add: otherChunks_def [of "w3"] rows o)
  moreover have "map chunk_index cd = map int [0..<length cd]"
    unfolding len unfolding cd_def by (rule chunkData_index)
  moreover have "last (log w3) = InsertChunks cd" unfolding l by simp
  ultimately show ?thesis using rows o len c(5) by auto
qed


theorem replace_semantics_witness:
  "success (fst (processPDFDocument quietEnv (worldOf [rowA, rowE, rowB]) (js ''A-1'') (js ''u'')))
   \<and> deleteErrorOf quietEnv
        (snd (processPDFDocument quietEnv (worldOf [rowA, rowE, rowB]) (js ''A-1'') (js ''u'')))
       = None
   \<and> length (chunksOf (snd (processPDFDocument quietEnv (worldOf [rowA, rowE, rowB])
                               (js ''A-1'') (js ''u''))) (js ''A-1'')) = 1
   \<and> otherChunks (snd (processPDFDocument quietEnv (worldOf [rowA, rowE, rowB])
                          (js ''A-1'') (js ''u''))) (js ''A-1'') = [rowB]"
proof -
  have s: "success (fst (processPDFDocument quietEnv (worldOf [rowA, rowE, rowB])
                           (js ''A-1'') (js ''u'')))"
    and d: "deleteErrorOf quietEnv
              (snd (processPDFDocument quietEnv (worldOf [rowA, rowE, rowB]) (js ''A-1'') (js ''u'')))
            = None"
    using reingest_quiet by simp_all
  from replace_semantics [OF s d] reingest_quiet s d show ?thesis by auto
qed

section \<open>The batch\<close>









end
